theory Spec2Isabelle
  imports Complex_Main
begin

section \<open>The Simplex blendshape solver: data model of simplex.h\<close>

text \<open>
  The development follows \<^verbatim>\<open>src/lib/simplex.h\<close>. The header declares every class of
  the solver and defines, inline, the constructors, \<^verbatim>\<open>clearValue\<close>, the accessors, and
  \<^verbatim>\<open>storeValue\<close> of \<^verbatim>\<open>Slider\<close> and \<^verbatim>\<open>Traversal\<close>. All other member functions are only
  declared there.

  Conventions of the embedding:
  \<^item> A \<^verbatim>\<open>double\<close> is a \<^typ>\<open>real\<close>. The inline code only assigns, compares and stores
    doubles, which is exact on finite values.
  \<^item> A data member that a constructor leaves out of its initialiser list holds an
    indeterminate value in C++. Such members have the type \<open>'a field\<close>, whose value
    \<open>Indeterminate\<close> says that nothing was ever assigned.
  \<^item> A pointer to an element of one of the vectors owned by a \<^verbatim>\<open>Simplex\<close> is the
    position of that element; a pointer of the base type \<^verbatim>\<open>ShapeController*\<close> also
    records which vector it points into.
  \<^item> Behaviour that C++ leaves undefined (reading outside a vector, following a pointer
    to no element, reading an indeterminate member) is a result \<open>Inl e\<close>.
\<close>

definition EPS :: real where
  "EPS = 1 / 1000000"

definition ULPS :: int where
  "ULPS = 4"

definition MAXVAL :: real where
  "MAXVAL = 1"

text \<open>
  The enumerator \<^verbatim>\<open>linear\<close> of \<^verbatim>\<open>ProgType\<close> is called \<open>linear_interp\<close> here, since
  \<open>linear\<close> is the linearity of a function in the library.
\<close>

datatype ProgType = linear_interp | spline

datatype 'a field = Indeterminate | Val 'a

datatype error = OutOfBounds | DanglingPointer | IndeterminateRead | DimensionError

type_synonym user_data = nat
type_synonym shape_ptr = nat
type_synonym prog_ptr = nat
type_synonym slider_ptr = nat
type_synonym floater_ptr = nat

datatype ctrl_ptr = SliderPtr nat | ComboPtr nat | FloaterPtr nat | TraversalPtr nat

subsection \<open>ShapeBase, Shape, Progression\<close>

record ShapeBase =
  shapeRef :: "user_data option"
  name :: string
  index :: nat

definition new_ShapeBase :: "string \<Rightarrow> nat \<Rightarrow> ShapeBase" where
  "new_ShapeBase nm idx = \<lparr>shapeRef = None, name = nm, index = idx\<rparr>"

definition new_ShapeBase_named :: "string \<Rightarrow> ShapeBase" where
  "new_ShapeBase_named nm = \<lparr>shapeRef = None, name = nm, index = 0\<rparr>"

definition getName :: "'a ShapeBase_scheme \<Rightarrow> string" where
  "getName b = name b"

definition getIndex :: "'a ShapeBase_scheme \<Rightarrow> nat" where
  "getIndex b = index b"

definition setUserData :: "user_data option \<Rightarrow> 'a ShapeBase_scheme \<Rightarrow> 'a ShapeBase_scheme" where
  "setUserData d b = b\<lparr>shapeRef := d\<rparr>"

definition getUserData :: "'a ShapeBase_scheme \<Rightarrow> user_data option" where
  "getUserData b = shapeRef b"

type_synonym Shape = ShapeBase

definition new_Shape :: "string \<Rightarrow> nat \<Rightarrow> Shape" where
  "new_Shape nm idx = new_ShapeBase nm idx"

record Progression = ShapeBase +
  pairs :: "(shape_ptr \<times> real) list"
  interp :: ProgType

text \<open>
  The constructor of \<^verbatim>\<open>Progression\<close> initialises the member \<^verbatim>\<open>pairs\<close> from the parameter
  of the same name and then calls \<^verbatim>\<open>std::sort(pairs.begin(), pairs.end(), ...)\<close>. Inside the
  constructor body the name \<^verbatim>\<open>pairs\<close> denotes the parameter, which hides the member, so
  the call addresses the caller's vector and the member keeps the order it was copied
  in. (The comparison lambda of that call has no \<^verbatim>\<open>return\<close> statement either.) The
  constructed object is therefore the following.
\<close>

definition new_Progression :: "string \<Rightarrow> (shape_ptr \<times> real) list \<Rightarrow> ProgType \<Rightarrow> Progression" where
  "new_Progression nm ps it =
     ShapeBase.extend (new_ShapeBase_named nm) (Progression.fields ps it)"

text \<open>The knot invariant of the data model: at least one knot, parameters strictly ascending.\<close>

definition knots_ordered :: "Progression \<Rightarrow> bool" where
  "knots_ordered p = (pairs p \<noteq> [] \<and> sorted_wrt (<) (map snd (pairs p)))"

subsection \<open>ShapeController and its variants\<close>

record ShapeController = ShapeBase +
  enabled :: bool
  "value" :: real
  multiplier :: "real field"
  prog :: prog_ptr

text \<open>
  The initialiser list of the constructor is
  \<^verbatim>\<open>ShapeBase(name, index), enabled(true), value(0.0), prog(prog)\<close>: the member
  \<^verbatim>\<open>multiplier\<close> is not in it.
\<close>

definition new_ShapeController :: "string \<Rightarrow> prog_ptr \<Rightarrow> nat \<Rightarrow> ShapeController" where
  "new_ShapeController nm pr idx =
     ShapeBase.extend (new_ShapeBase nm idx) (ShapeController.fields True 0 Indeterminate pr)"

definition clearValue :: "'a ShapeController_scheme \<Rightarrow> 'a ShapeController_scheme" where
  "clearValue c = c\<lparr>value := 0, multiplier := Val 1\<rparr>"

definition getValue :: "'a ShapeController_scheme \<Rightarrow> real" where
  "getValue c = value c"

definition getMultiplier :: "'a ShapeController_scheme \<Rightarrow> error + real" where
  "getMultiplier c = (case multiplier c of Indeterminate \<Rightarrow> Inl IndeterminateRead | Val m \<Rightarrow> Inr m)"

definition setEnabled :: "bool \<Rightarrow> 'a ShapeController_scheme \<Rightarrow> 'a ShapeController_scheme" where
  "setEnabled enable c = c\<lparr>enabled := enable\<rparr>"

type_synonym Slider = ShapeController

definition new_Slider :: "string \<Rightarrow> prog_ptr \<Rightarrow> nat \<Rightarrow> Slider" where
  "new_Slider nm pr idx = new_ShapeController nm pr idx"

text \<open>
  \<^verbatim>\<open>Slider::storeValue\<close> is \<^verbatim>\<open>this->value = values[this->index]\<close>. The subscript of a
  \<^verbatim>\<open>std::vector\<close> is unchecked, so an index outside the vector is undefined behaviour.
  The parameter \<^verbatim>\<open>clamped\<close> is declared as a vector of doubles.
\<close>

definition Slider_storeValue ::
  "Slider \<Rightarrow> real list \<Rightarrow> real list \<Rightarrow> real list \<Rightarrow> bool list \<Rightarrow> error + Slider" where
  "Slider_storeValue this vals posValues clamped inverses =
     (if index this < length vals then Inr (this\<lparr>value := vals ! index this\<rparr>)
      else Inl OutOfBounds)"

record Combo = ShapeController +
  exact :: "bool field"
  stateList :: "(slider_ptr \<times> real) list"

text \<open>
  The initialiser list of the constructor is
  \<^verbatim>\<open>ShapeController(name, prog, index), stateList(stateList)\<close>: the member \<^verbatim>\<open>exact\<close> is
  not in it.
\<close>

definition new_Combo :: "string \<Rightarrow> prog_ptr \<Rightarrow> nat \<Rightarrow> (slider_ptr \<times> real) list \<Rightarrow> Combo" where
  "new_Combo nm pr idx sl =
     ShapeController.extend (new_ShapeController nm pr idx) (Combo.fields Indeterminate sl)"

definition setExact :: "bool \<Rightarrow> Combo \<Rightarrow> Combo" where
  "setExact e c = c\<lparr>exact := Val e\<rparr>"

record Traversal = ShapeController +
  progressCtrl :: ctrl_ptr
  multiplierCtrl :: ctrl_ptr

definition new_Traversal :: "string \<Rightarrow> prog_ptr \<Rightarrow> nat \<Rightarrow> ctrl_ptr \<Rightarrow> ctrl_ptr \<Rightarrow> Traversal" where
  "new_Traversal nm pr idx pc mc =
     ShapeController.extend (new_ShapeController nm pr idx) (Traversal.fields pc mc)"

record Floater = ShapeController +
  floater_stateList :: "(slider_ptr \<times> real) list"
  floater_values :: "real list"
  floater_inverses :: "bool list"

record TriSpace =
  simplexMap :: "(int list \<times> int list list) list"
  space_floaters :: "floater_ptr list"

subsection \<open>The top-level Simplex\<close>

record Simplex =
  shapes :: "Shape list"
  progs :: "Progression list"
  sliders :: "Slider list"
  combos :: "Combo list"
  floaters :: "Floater list"
  spaces :: "TriSpace list"
  traversals :: "Traversal list"
  exactSolve :: bool
  built :: bool
  loaded :: bool
  hasParseError :: bool
  parseError :: string
  parseErrorOffset :: nat

text \<open>
  \<^verbatim>\<open>p->getValue()\<close> for a \<^verbatim>\<open>ShapeController*\<close> that points into the controller vectors of
  a \<^verbatim>\<open>Simplex\<close>. A pointer to no element cannot be followed.
\<close>

definition ctrl_getValue :: "Simplex \<Rightarrow> ctrl_ptr \<Rightarrow> error + real" where
  "ctrl_getValue s p =
     (case p of
        SliderPtr i \<Rightarrow>
          if i < length (sliders s) then Inr (getValue (sliders s ! i)) else Inl DanglingPointer
      | ComboPtr i \<Rightarrow>
          if i < length (combos s) then Inr (getValue (combos s ! i)) else Inl DanglingPointer
      | FloaterPtr i \<Rightarrow>
          if i < length (floaters s) then Inr (getValue (floaters s ! i)) else Inl DanglingPointer
      | TraversalPtr i \<Rightarrow>
          if i < length (traversals s) then Inr (getValue (traversals s ! i))
          else Inl DanglingPointer)"

text \<open>
  \<^verbatim>\<open>Traversal::storeValue\<close>, called on the element \<open>this\<close> of \<^verbatim>\<open>traversals\<close>:
  \<^verbatim>\<open>this->value = progressCtrl->getValue(); this->multiplier = multiplierCtrl->getValue();\<close>
  The two statements run in this order on the shared objects, so the second read sees
  the first write when \<^verbatim>\<open>multiplierCtrl\<close> points at the traversal itself.
\<close>

definition Traversal_storeValue ::
  "nat \<Rightarrow> real list \<Rightarrow> real list \<Rightarrow> real list \<Rightarrow> bool list \<Rightarrow> Simplex \<Rightarrow> error + Simplex" where
  "Traversal_storeValue this vals posValues clamped inverses s =
     (if length (traversals s) \<le> this then Inl DanglingPointer
      else
        case ctrl_getValue s (progressCtrl (traversals s ! this)) of
          Inl e \<Rightarrow> Inl e
        | Inr v \<Rightarrow>
            let s1 = s\<lparr>traversals := (traversals s)[this := (traversals s ! this)\<lparr>value := v\<rparr>]\<rparr>
            in case ctrl_getValue s1 (multiplierCtrl (traversals s1 ! this)) of
                 Inl e \<Rightarrow> Inl e
               | Inr m \<Rightarrow>
                   Inr (s1\<lparr>traversals :=
                          (traversals s1)[this := (traversals s1 ! this)\<lparr>multiplier := Val m\<rparr>]\<rparr>))"

subsection \<open>Calls on a Combo\<close>

text \<open>
  The member functions that the header defines for a \<^verbatim>\<open>Combo\<close> (its own and the
  inherited ones), as a datatype of calls, and the effect of a sequence of calls.
\<close>

datatype combo_call =
    CallSetUserData "user_data option"
  | CallSetEnabled bool
  | CallClearValue
  | CallSetExact bool

fun combo_do :: "combo_call \<Rightarrow> Combo \<Rightarrow> Combo" where
  "combo_do (CallSetUserData d) c = setUserData d c"
| "combo_do (CallSetEnabled b) c = setEnabled b c"
| "combo_do CallClearValue c = clearValue c"
| "combo_do (CallSetExact e) c = setExact e c"

fun combo_run :: "combo_call list \<Rightarrow> Combo \<Rightarrow> Combo" where
  "combo_run [] c = c"
| "combo_run (k # ks) c = combo_run ks (combo_do k c)"

fun setExact_called :: "combo_call list \<Rightarrow> bool" where
  "setExact_called [] = False"
| "setExact_called (CallSetExact e # ks) = True"
| "setExact_called (k # ks) = setExact_called ks"

section \<open>Member functions that the header only declares\<close>

text \<open>
  The bodies of \<^verbatim>\<open>Simplex::rectify\<close>, \<^verbatim>\<open>Combo::storeValue\<close>, \<^verbatim>\<open>Simplex::clearValues\<close>,
  \<^verbatim>\<open>ShapeController::solve\<close> and \<^verbatim>\<open>Simplex::solve\<close> are not in the header. The
  definitions of this section follow the specification of the solver, within the
  parameter lists that the header declares; each says so.
\<close>

subsection \<open>Rectification\<close>

text \<open>
  Every \<^verbatim>\<open>storeValue\<close> of the header takes four vectors: \<^verbatim>\<open>values\<close>, \<^verbatim>\<open>posValues\<close> and
  \<^verbatim>\<open>clamped\<close>, all three of doubles, and \<^verbatim>\<open>inverses\<close> of booleans. They are the vectors
  that a \<^verbatim>\<open>solve\<close> holds between rectifying and storing.
\<close>

record solve_vectors =
  "values" :: "real list"
  posValues :: "real list"
  clamped :: "real list"
  inverses :: "bool list"

definition no_vectors :: solve_vectors where
  "no_vectors = \<lparr>values = [], posValues = [], clamped = [], inverses = []\<rparr>"

text \<open>
  Modelled from the spec: the body of \<^verbatim>\<open>Simplex::rectify\<close> is missing; this is the
  clamping "to \<open>[0, MAXVAL]\<close>" of section 4.1.
\<close>

definition clamp_to_MAXVAL :: "real \<Rightarrow> real" where
  "clamp_to_MAXVAL x = (if x < 0 then 0 else if MAXVAL < x then MAXVAL else x)"

text \<open>
  Modelled from the spec: the body of \<^verbatim>\<open>Simplex::rectify\<close> is missing. Its declaration is
  \<^verbatim>\<open>void rectify(const std::vector<double> &rawVec, std::vector<double> &values,
  std::vector<double> &clamped, std::vector<bool> &inverses)\<close>: it returns nothing and
  can write to the three vectors it is given by reference, which are \<^verbatim>\<open>values\<close>,
  \<^verbatim>\<open>clamped\<close> and \<^verbatim>\<open>inverses\<close> of its caller. There is no parameter for \<^verbatim>\<open>posValues\<close>,
  and a \<^verbatim>\<open>Simplex\<close> has no member of that kind, so that vector of the caller stays as
  it is. What is written follows the specification (section 4.1), entry by entry:
  \<open>values[i]\<close> is \<open>|raw[i]|\<close> clamped to \<open>[0, MAXVAL]\<close>, \<open>clamped[i]\<close> is true if
  \<open>|raw[i]| > MAXVAL\<close>, and \<open>inverses[i]\<close> is true if \<open>raw[i] < 0\<close>. An entry of \<^verbatim>\<open>clamped\<close>
  is a double: true is stored as 1 and false as 0.
\<close>

definition rectify :: "real list \<Rightarrow> solve_vectors \<Rightarrow> solve_vectors" where
  "rectify rawVec vecs =
     vecs\<lparr>values := map (\<lambda>x. clamp_to_MAXVAL \<bar>x\<bar>) rawVec,
          clamped := map (\<lambda>x. if MAXVAL < \<bar>x\<bar> then 1 else 0) rawVec,
          inverses := map (\<lambda>x. x < 0) rawVec\<rparr>"

text \<open>
  Modelled from the spec: the code that fills \<^verbatim>\<open>posValues\<close> is missing. The specification
  (section 4.1) has \<open>posValues[i]\<close> be \<open>max(raw[i], 0)\<close> clamped to \<open>[0, MAXVAL]\<close>.
\<close>

definition positive_values :: "real list \<Rightarrow> real list" where
  "positive_values rawVec = map (\<lambda>x. clamp_to_MAXVAL (max x 0)) rawVec"

subsection \<open>Sequencing of fallible steps\<close>

fun mapE :: "('a \<Rightarrow> error + 'b) \<Rightarrow> 'a list \<Rightarrow> error + 'b list" where
  "mapE f [] = Inr []"
| "mapE f (x # xs) =
     (case f x of
        Inl e \<Rightarrow> Inl e
      | Inr y \<Rightarrow> (case mapE f xs of Inl e \<Rightarrow> Inl e | Inr ys \<Rightarrow> Inr (y # ys)))"

fun foldE :: "('a \<Rightarrow> 's \<Rightarrow> error + 's) \<Rightarrow> 'a list \<Rightarrow> 's \<Rightarrow> error + 's" where
  "foldE f [] st = Inr st"
| "foldE f (x # xs) st = (case f x st of Inl e \<Rightarrow> Inl e | Inr st' \<Rightarrow> foldE f xs st')"

subsection \<open>Combo::storeValue\<close>

text \<open>
  Modelled from the spec: the body of \<^verbatim>\<open>Combo::storeValue\<close> is missing. The specification
  (section 4.4) reads, per participating slider \<open>j\<close> with signed target \<open>\<tau>\<^sub>j\<close>:
  \<open>v\<^sub>j = values[slider\<^sub>j.index]\<close>; the contribution is 0 if
  \<open>inverses[slider\<^sub>j.index] \<noteq> (\<tau>\<^sub>j < 0)\<close>; otherwise
  \<open>w\<^sub>j = min(v\<^sub>j / |\<tau>\<^sub>j|, 1)\<close>, clamped to \<open>[0, 1]\<close>. An exact combo takes the minimum of
  the \<open>w\<^sub>j\<close>, a smooth one their product; the multiplier is not touched.

  Both combinations start from 1, the largest value a \<open>w\<^sub>j\<close> can take, so a combo with an
  empty state list (on which the specification is silent) gets the value 1. The
  division is that of the reals, where \<open>x / 0 = 0\<close>; a double division by zero gives an
  infinity or a NaN, so results for a target \<open>\<tau>\<^sub>j = 0\<close> say nothing about the program.
\<close>

definition combo_state_weight ::
  "Simplex \<Rightarrow> real list \<Rightarrow> bool list \<Rightarrow> slider_ptr \<times> real \<Rightarrow> error + real" where
  "combo_state_weight s vals invs st =
     (case st of (sp, tau) \<Rightarrow>
        if length (sliders s) \<le> sp then Inl DanglingPointer
        else
          let i = index (sliders s ! sp)
          in if length vals \<le> i \<or> length invs \<le> i then Inl OutOfBounds
             else if invs ! i \<noteq> (tau < 0) then Inr 0
             else Inr (max 0 (min (vals ! i / \<bar>tau\<bar>) 1)))"

text \<open>
  Modelled from the spec: the body of \<^verbatim>\<open>Combo::storeValue\<close> is missing. The value of the
  combo \<open>this\<close> of \<^verbatim>\<open>combos\<close> is combined from the contributions above as section 4.4
  says: their minimum if the combo is exact, their product otherwise.
\<close>

definition Combo_storeValue ::
  "nat \<Rightarrow> real list \<Rightarrow> real list \<Rightarrow> real list \<Rightarrow> bool list \<Rightarrow> Simplex \<Rightarrow> error + Simplex" where
  "Combo_storeValue this vals posVals clampedVals invs s =
     (if length (combos s) \<le> this then Inl DanglingPointer
      else
        case exact (combos s ! this) of
          Indeterminate \<Rightarrow> Inl IndeterminateRead
        | Val ex \<Rightarrow>
            (case mapE (combo_state_weight s vals invs) (stateList (combos s ! this)) of
               Inl e \<Rightarrow> Inl e
             | Inr ws \<Rightarrow>
                 Inr (s\<lparr>combos := (combos s)[this := (combos s ! this)
                        \<lparr>value := (if ex then foldl min 1 ws else foldl (*) 1 ws)\<rparr>]\<rparr>)))"

subsection \<open>Simplex::clearValues\<close>

text \<open>
  Modelled from the spec: the body of \<^verbatim>\<open>Simplex::clearValues\<close> is missing. The
  specification has it reset the scratch fields of all controllers (sections 4.9 and
  6), which is \<^verbatim>\<open>ShapeController::clearValue\<close> of the header on every slider, combo,
  floater and traversal.
\<close>

definition clearValues :: "Simplex \<Rightarrow> Simplex" where
  "clearValues s =
     s\<lparr>sliders := map clearValue (sliders s),
       combos := map clearValue (combos s),
       floaters := map clearValue (floaters s),
       traversals := map clearValue (traversals s)\<rparr>"

subsection \<open>ShapeController::solve and Simplex::solve\<close>

text \<open>
  Modelled from the spec: the body of \<^verbatim>\<open>ShapeController::solve\<close> is missing. The
  specification (section 4.8): if the controller is enabled and \<open>|value| \<ge> EPS\<close>, the
  output of its progression at \<open>(value, multiplier)\<close> is added, pair by pair, into the
  accumulator at the index of the shape. \<^verbatim>\<open>Progression::getOutput\<close> is missing as well
  and is the parameter \<open>getOutput\<close>.
\<close>

fun accumulate :: "Shape list \<Rightarrow> (shape_ptr \<times> real) list \<Rightarrow> real list \<Rightarrow> error + real list" where
  "accumulate shs [] acc = Inr acc"
| "accumulate shs ((sp, w) # rest) acc =
     (if length shs \<le> sp then Inl DanglingPointer
      else if length acc \<le> index (shs ! sp) then Inl OutOfBounds
      else accumulate shs rest (acc[index (shs ! sp) := acc ! index (shs ! sp) + w]))"

text \<open>
  Modelled from the spec: the body of \<^verbatim>\<open>ShapeController::solve\<close> is missing; section 4.8
  of the specification as described above, on top of \<open>accumulate\<close>.
\<close>

definition ShapeController_solve ::
  "(Progression \<Rightarrow> real \<Rightarrow> real \<Rightarrow> (shape_ptr \<times> real) list) \<Rightarrow> Simplex \<Rightarrow>
   'a ShapeController_scheme \<Rightarrow> real list \<Rightarrow> error + real list" where
  "ShapeController_solve getOutput s c acc =
     (if enabled c \<and> EPS \<le> \<bar>value c\<bar> then
        if length (progs s) \<le> prog c then Inl DanglingPointer
        else
          case multiplier c of
            Indeterminate \<Rightarrow> Inl IndeterminateRead
          | Val m \<Rightarrow> accumulate (shapes s) (getOutput (progs s ! prog c) (value c) m) acc
      else Inr acc)"

text \<open>
  Modelled from the spec: the body of \<^verbatim>\<open>Simplex::solve\<close> is missing. The specification
  gives the stages (section 4.9): clear all controllers, rectify the input, store the
  values of the sliders, the combos, the spaces and the traversals in this order, then
  let the sliders, combos, floaters and traversals add into an accumulator of
  \<open>|shapes|\<close> zeros. Its exit conditions (section 6): a solve on a rig that failed to
  build returns a zero vector, and a mis-sized input is rejected with an error. The
  zero vector of an unbuilt rig has the length \<open>|shapes|\<close> that every result has, and
  the test for an unbuilt rig comes first, since the specification attaches no
  condition to it. \<^verbatim>\<open>TriSpace::storeValue\<close> is missing and is the parameter
  \<open>spaceStoreValue\<close>. Of the four vectors that the \<^verbatim>\<open>storeValue\<close> functions take,
  \<^verbatim>\<open>rectify\<close> writes three; \<^verbatim>\<open>posValues\<close> is filled beside it.
\<close>

definition solve ::
  "(Progression \<Rightarrow> real \<Rightarrow> real \<Rightarrow> (shape_ptr \<times> real) list) \<Rightarrow>
   (TriSpace \<Rightarrow> real list \<Rightarrow> real list \<Rightarrow> real list \<Rightarrow> bool list \<Rightarrow> Simplex \<Rightarrow> error + Simplex) \<Rightarrow>
   Simplex \<Rightarrow> real list \<Rightarrow> error + (real list \<times> Simplex)" where
  "solve getOutput spaceStoreValue s vec =
     (if \<not> built s then Inr (replicate (length (shapes s)) 0, s)
      else if length vec \<noteq> length (sliders s) then Inl DimensionError
      else
        let s0 = clearValues s;
            r = rectify vec (no_vectors\<lparr>posValues := positive_values vec\<rparr>);
            vs = values r;
            ps = posValues r;
            cs = clamped r;
            is = inverses r
        in case mapE (\<lambda>sl. Slider_storeValue sl vs ps cs is) (sliders s0) of
             Inl e \<Rightarrow> Inl e
           | Inr sls \<Rightarrow>
        (case foldE (\<lambda>i. Combo_storeValue i vs ps cs is) [0..<length (combos s0)]
                (s0\<lparr>sliders := sls\<rparr>) of
             Inl e \<Rightarrow> Inl e
           | Inr s2 \<Rightarrow>
        (case foldE (\<lambda>sp. spaceStoreValue sp vs ps cs is) (spaces s2) s2 of
             Inl e \<Rightarrow> Inl e
           | Inr s3 \<Rightarrow>
        (case foldE (\<lambda>i. Traversal_storeValue i vs ps cs is) [0..<length (traversals s3)] s3 of
             Inl e \<Rightarrow> Inl e
           | Inr s4 \<Rightarrow>
        (case foldE (ShapeController_solve getOutput s4) (sliders s4)
                (replicate (length (shapes s4)) 0) of
             Inl e \<Rightarrow> Inl e
           | Inr a1 \<Rightarrow>
        (case foldE (ShapeController_solve getOutput s4) (combos s4) a1 of
             Inl e \<Rightarrow> Inl e
           | Inr a2 \<Rightarrow>
        (case foldE (ShapeController_solve getOutput s4) (floaters s4) a2 of
             Inl e \<Rightarrow> Inl e
           | Inr a3 \<Rightarrow>
        (case foldE (ShapeController_solve getOutput s4) (traversals s4) a3 of
             Inl e \<Rightarrow> Inl e
           | Inr a4 \<Rightarrow> Inr (a4, s4)))))))))"

section \<open>A small rig\<close>

text \<open>
  Two sliders \<open>a\<close> and \<open>b\<close>, the exact combo \<open>ab\<close> of both at targets 1, and a traversal
  that progresses with \<open>a\<close> and is multiplied by \<open>b\<close>; every controller has been cleared
  once. The rig is used to run the statements below on concrete inputs.
\<close>

definition scenario_rig :: Simplex where
  "scenario_rig =
     \<lparr>shapes = [new_Shape ''A'' 0, new_Shape ''B'' 1, new_Shape ''AB'' 2, new_Shape ''S'' 3],
      progs = [new_Progression ''a'' [(0, 1)] linear_interp,
               new_Progression ''b'' [(1, 1)] linear_interp,
               new_Progression ''ab'' [(2, 1)] linear_interp,
               new_Progression ''t'' [(3, 1)] linear_interp],
      sliders = [clearValue (new_Slider ''a'' 0 0), clearValue (new_Slider ''b'' 1 1)],
      combos = [setExact True (clearValue (new_Combo ''ab'' 2 0 [(0, 1), (1, 1)]))],
      floaters = [],
      spaces = [],
      traversals = [clearValue (new_Traversal ''t'' 3 0 (SliderPtr 0) (SliderPtr 1))],
      exactSolve = True,
      built = True,
      loaded = True,
      hasParseError = False,
      parseError = [],
      parseErrorOffset = 0\<rparr>"

section \<open>Properties\<close>

subsection \<open>Selectors of freshly constructed objects\<close>

lemma new_ShapeController_sel:
  "value (new_ShapeController nm pr idx) = 0"
  "multiplier (new_ShapeController nm pr idx) = Indeterminate"
  "enabled (new_ShapeController nm pr idx) = True"
  "prog (new_ShapeController nm pr idx) = pr"
  "index (new_ShapeController nm pr idx) = idx"
  "name (new_ShapeController nm pr idx) = nm"
  "shapeRef (new_ShapeController nm pr idx) = None"
  by (simp_all add: new_ShapeController_def new_ShapeBase_def ShapeBase.defs ShapeController.defs)

lemma new_Combo_sel:
  "exact (new_Combo nm pr idx sl) = Indeterminate"
  "stateList (new_Combo nm pr idx sl) = sl"
  "value (new_Combo nm pr idx sl) = 0"
  "multiplier (new_Combo nm pr idx sl) = Indeterminate"
  by (simp_all add: new_Combo_def new_ShapeController_def new_ShapeBase_def
      ShapeBase.defs ShapeController.defs Combo.defs)

lemma new_Traversal_sel:
  "progressCtrl (new_Traversal nm pr idx pc mc) = pc"
  "multiplierCtrl (new_Traversal nm pr idx pc mc) = mc"
  "value (new_Traversal nm pr idx pc mc) = 0"
  "multiplier (new_Traversal nm pr idx pc mc) = Indeterminate"
  by (simp_all add: new_Traversal_def new_ShapeController_def new_ShapeBase_def
      ShapeBase.defs ShapeController.defs Traversal.defs)

lemma new_Progression_sel:
  "pairs (new_Progression nm ps it) = ps"
  "interp (new_Progression nm ps it) = it"
  "index (new_Progression nm ps it) = 0"
  "name (new_Progression nm ps it) = nm"
  by (simp_all add: new_Progression_def new_ShapeBase_named_def ShapeBase.defs Progression.defs)

lemma clearValue_sel:
  "value (clearValue c) = 0"
  "multiplier (clearValue c) = Val 1"
  by (simp_all add: clearValue_def)

lemma clearValue_idem: "clearValue (clearValue c) = clearValue c"
  by (simp add: clearValue_def)

lemma scenario_rig_sel:
  "sliders scenario_rig = [clearValue (new_Slider ''a'' 0 0), clearValue (new_Slider ''b'' 1 1)]"
  "combos scenario_rig = [setExact True (clearValue (new_Combo ''ab'' 2 0 [(0, 1), (1, 1)]))]"
  "traversals scenario_rig = [clearValue (new_Traversal ''t'' 3 0 (SliderPtr 0) (SliderPtr 1))]"
  "floaters scenario_rig = []"
  "length (shapes scenario_rig) = 4"
  "built scenario_rig = True"
  by (simp_all add: scenario_rig_def)

lemma cleared_Slider_index: "index (clearValue (new_Slider nm pr idx)) = idx"
  by (simp add: clearValue_def new_Slider_def new_ShapeController_sel)

lemma scenario_combo_sel:
  "exact (setExact True (clearValue (new_Combo ''ab'' 2 0 sl))) = Val True"
  "stateList (setExact True (clearValue (new_Combo ''ab'' 2 0 sl))) = sl"
  "multiplier (setExact True (clearValue (new_Combo ''ab'' 2 0 sl))) = Val 1"
  by (simp_all add: setExact_def clearValue_def new_Combo_sel)

subsection \<open>Rectification\<close>





subsection \<open>Exact combos\<close>

lemma mapE_all_Inr:
  "(\<And>x. x \<in> set xs \<Longrightarrow> f x = Inr (g x)) \<Longrightarrow> mapE f xs = Inr (map g xs)"
  by (induction xs) simp_all

lemma foldl_min_Min:
  fixes a :: real
  shows "foldl min a ws = Min (insert a (set ws))"
proof (induction ws arbitrary: a)
  case Nil
  show ?case by simp
next
  case (Cons w ws)
  have "Min (insert (min a w) (set ws)) = Min (insert a (insert w (set ws)))"
  proof (cases "set ws = {}")
    case True
    then show ?thesis by (simp add: min.commute)
  next
    case False
    then show ?thesis by (simp add: min.assoc)
  qed
  then show ?case by (simp add: Cons.IH)
qed

lemma foldl_min_one:
  fixes ws :: "real list"
  assumes "ws \<noteq> []" and "\<And>w. w \<in> set ws \<Longrightarrow> w \<le> 1"
  shows "foldl min 1 ws = Min (set ws)"
proof -
  have "Min (set ws) \<le> 1"
    using assms by (meson List.finite_set Min_in set_empty)
  moreover have "Min (insert 1 (set ws)) = min 1 (Min (set ws))"
    using assms(1) by (intro Min_insert) simp_all
  ultimately show ?thesis
    by (simp only: foldl_min_Min min_absorb2)
qed

text \<open>
  Claim C3. For a combo with \<open>exact = true\<close>, \<open>storeValue\<close> sets the value to the minimum,
  over the entries \<open>(slider\<^sub>j, \<tau>\<^sub>j)\<close> of its state list, of \<open>w\<^sub>j\<close>, where \<open>w\<^sub>j = 0\<close> if
  \<open>inverses[slider\<^sub>j.index] \<noteq> (\<tau>\<^sub>j < 0)\<close> and otherwise
  \<open>w\<^sub>j = min(values[slider\<^sub>j.index] / |\<tau>\<^sub>j|, 1)\<close> clamped to \<open>[0, 1]\<close>; the multiplier
  is left as it was, so it stays at the 1.0 it was cleared to. The statement is for a
  combo with at least one state, whose slider pointers and slider indices are in
  range and whose targets are not zero.
\<close>

theorem Combo_storeValue_exact_min:
  assumes live: "this < length (combos s)"
    and ex: "exact (combos s ! this) = Val True"
    and ne: "stateList (combos s ! this) \<noteq> []"
    and ok: "\<forall>(sp, tau) \<in> set (stateList (combos s ! this)).
               sp < length (sliders s) \<and> index (sliders s ! sp) < length vals \<and>
               index (sliders s ! sp) < length invs \<and> tau \<noteq> 0"
  shows "\<exists>s'. Combo_storeValue this vals posVals clampedVals invs s = Inr s' \<and>
              value (combos s' ! this) =
                Min ((\<lambda>(sp, tau).
                        if invs ! index (sliders s ! sp) \<noteq> (tau < 0) then 0
                        else max 0 (min (vals ! index (sliders s ! sp) / \<bar>tau\<bar>) 1))
                     ` set (stateList (combos s ! this))) \<and>
              0 \<le> value (combos s' ! this) \<and> value (combos s' ! this) \<le> 1 \<and>
              multiplier (combos s' ! this) = multiplier (combos s ! this) \<and>
              s' = s\<lparr>combos := (combos s)[this := (combos s ! this)
                     \<lparr>value := value (combos s' ! this)\<rparr>]\<rparr>"
proof -
  let ?g = "\<lambda>(sp, tau).
              if invs ! index (sliders s ! sp) \<noteq> (tau < 0) then (0::real)
              else max 0 (min (vals ! index (sliders s ! sp) / \<bar>tau\<bar>) 1)"
  let ?sl = "stateList (combos s ! this)"
  have each: "combo_state_weight s vals invs st = Inr (?g st)" if "st \<in> set ?sl" for st
    using ok that by (cases st) (auto simp add: combo_state_weight_def Let_def)
  have ws: "mapE (combo_state_weight s vals invs) ?sl = Inr (map ?g ?sl)"
    using each by (rule mapE_all_Inr)
  have bound: "0 \<le> w \<and> w \<le> 1" if "w \<in> set (map ?g ?sl)" for w
    using that by auto
  have m: "foldl min 1 (map ?g ?sl) = Min (set (map ?g ?sl))"
    using ne bound by (intro foldl_min_one) simp_all
  have mem: "Min (set (map ?g ?sl)) \<in> set (map ?g ?sl)"
    using ne by (intro Min_in) simp_all
  have rng: "0 \<le> Min (set (map ?g ?sl)) \<and> Min (set (map ?g ?sl)) \<le> 1"
    using bound [OF mem] .
  show ?thesis
    using live ex ws m rng by (simp add: Combo_storeValue_def)
qed

text \<open>
  The combo \<open>ab\<close> of the small rig at the rectified input \<open>(0.8, 0.6)\<close>: its value becomes
  0.6 and its multiplier stays 1.
\<close>

theorem Combo_storeValue_exact_min_witness:
  "\<exists>s'. Combo_storeValue 0 [4 / 5, 3 / 5] [4 / 5, 3 / 5] [0, 0] [False, False] scenario_rig = Inr s' \<and>
        value (combos s' ! 0) = 3 / 5 \<and> multiplier (combos s' ! 0) = Val 1"
proof -
  have live: "0 < length (combos scenario_rig)"
    by (simp add: scenario_rig_sel)
  have ex: "exact (combos scenario_rig ! 0) = Val True"
    by (simp add: scenario_rig_sel scenario_combo_sel)
  have ne: "stateList (combos scenario_rig ! 0) \<noteq> []"
    by (simp add: scenario_rig_sel scenario_combo_sel)
  have ok: "\<forall>(sp, tau) \<in> set (stateList (combos scenario_rig ! 0)).
              sp < length (sliders scenario_rig) \<and>
              index (sliders scenario_rig ! sp) < length [4 / 5, 3 / 5 :: real] \<and>
              index (sliders scenario_rig ! sp) < length [False, False] \<and> tau \<noteq> 0"
    by (simp add: scenario_rig_sel scenario_combo_sel cleared_Slider_index)
  have "\<exists>s'. Combo_storeValue 0 [4 / 5, 3 / 5] [4 / 5, 3 / 5] [0, 0] [False, False] scenario_rig = Inr s' \<and>
          value (combos s' ! 0) = 3 / 5 \<and>
          0 \<le> value (combos s' ! 0) \<and> value (combos s' ! 0) \<le> 1 \<and>
          multiplier (combos s' ! 0) = Val 1 \<and>
          s' = scenario_rig\<lparr>combos := (combos scenario_rig)[0 := (combos scenario_rig ! 0)
                 \<lparr>value := value (combos s' ! 0)\<rparr>]\<rparr>"
    using Combo_storeValue_exact_min [OF live ex ne ok, of "[4 / 5, 3 / 5]" "[0, 0]"]
    by (simp add: scenario_rig_sel scenario_combo_sel cleared_Slider_index)
  then show ?thesis by blast
qed

subsection \<open>Knots of a progression\<close>

text \<open>
  Claim C4. After a progression is constructed, its stored knots are sorted ascending
  by their parameter, strictly, and there is at least one knot. The constructor is
  given three knots with the distinct parameters 1, 0.5 and -0.25, in this order. It
  stores them in the order given, which is not ascending, while the same object with
  its knots sorted by parameter, as the \<^verbatim>\<open>std::sort\<close> call of the constructor sets out
  to do, has the invariant.
\<close>

theorem Progression_knots_stay_unsorted:
  "pairs (new_Progression ''p'' [(2, 1), (0, 1 / 2), (1, - 1 / 4)] linear_interp)
     = [(2, 1), (0, 1 / 2), (1, - 1 / 4)] \<and>
   \<not> knots_ordered (new_Progression ''p'' [(2, 1), (0, 1 / 2), (1, - 1 / 4)] linear_interp) \<and>
   knots_ordered ((new_Progression ''p'' [(2, 1), (0, 1 / 2), (1, - 1 / 4)] linear_interp)
     \<lparr>pairs := sort_key snd [(2, 1), (0, 1 / 2), (1, - 1 / 4)]\<rparr>)"
  by (simp add: knots_ordered_def new_Progression_sel)

subsection \<open>Value and multiplier of a controller\<close>

text \<open>
  Claim C5. For every controller, value and multiplier are \<open>(0.0, 1.0)\<close> at creation
  and after \<open>clearValue\<close>. For a freshly constructed slider: the value is 0 but the
  multiplier holds nothing, and reading it is undefined; only \<open>clearValue\<close> makes the
  pair \<open>(0, 1)\<close>.
\<close>

theorem ShapeController_multiplier_after_construction:
  "value (new_Slider ''s'' 0 0) = 0 \<and>
   multiplier (new_Slider ''s'' 0 0) = Indeterminate \<and>
   getMultiplier (new_Slider ''s'' 0 0) = Inl IndeterminateRead \<and>
   (value (clearValue (new_Slider ''s'' 0 0)), multiplier (clearValue (new_Slider ''s'' 0 0)))
     = (0, Val 1)"
  by (simp add: new_Slider_def new_ShapeController_sel getMultiplier_def clearValue_sel)

subsection \<open>Slider::storeValue\<close>

text \<open>
  Claim C6. For every slider, \<open>storeValue\<close> sets the value to \<open>values[index]\<close>, leaves the
  multiplier (and everything else) as it was, and does not fail. The index of the
  slider has to be a position of \<open>values\<close> for \<open>values[index]\<close> to exist.
\<close>

theorem Slider_storeValue_reads_values:
  assumes "index this < length vals"
  shows "\<exists>s'. Slider_storeValue this vals posVals clampedVals invs = Inr s' \<and>
              s' = this\<lparr>value := vals ! index this\<rparr> \<and>
              value s' = vals ! index this \<and> multiplier s' = multiplier this"
  using assms by (simp add: Slider_storeValue_def)

text \<open>A slider with index 1 on the values \<open>(0.25, 0.5)\<close>.\<close>

theorem Slider_storeValue_reads_values_witness:
  "index (new_Slider ''s'' 0 1) < length [1 / 4, 1 / 2 :: real] \<and>
   (\<exists>s'. Slider_storeValue (new_Slider ''s'' 0 1) [1 / 4, 1 / 2] [0, 1 / 2] [0, 0] [True, False]
            = Inr s' \<and>
         s' = (new_Slider ''s'' 0 1)\<lparr>value := [1 / 4, 1 / 2] ! index (new_Slider ''s'' 0 1)\<rparr> \<and>
         value s' = 1 / 2 \<and> multiplier s' = multiplier (new_Slider ''s'' 0 1))"
proof -
  have h: "index (new_Slider ''s'' 0 1) < length [1 / 4, 1 / 2 :: real]"
    by (simp add: new_Slider_def new_ShapeController_sel)
  show ?thesis
    using h Slider_storeValue_reads_values [OF h, of "[0, 1 / 2]" "[0, 0]" "[True, False]"]
    by (simp add: new_Slider_def new_ShapeController_sel)
qed

subsection \<open>Traversal::storeValue\<close>

lemma ctrl_getValue_traversals_update_other:
  "p \<noteq> TraversalPtr this \<Longrightarrow>
   ctrl_getValue (s\<lparr>traversals := (traversals s)[this := t']\<rparr>) p = ctrl_getValue s p"
  by (cases p) (simp_all add: ctrl_getValue_def)

lemma ctrl_getValue_traversals_update_self:
  "this < length (traversals s) \<Longrightarrow>
   ctrl_getValue (s\<lparr>traversals := (traversals s)[this := t']\<rparr>) (TraversalPtr this) = Inr (value t')"
  by (simp add: ctrl_getValue_def getValue_def)

text \<open>
  Claim C7. For every traversal, \<open>storeValue\<close> sets the value to the current value of
  the controller \<open>progressCtrl\<close> and the multiplier to the current value of the
  controller \<open>multiplierCtrl\<close>. Both pointers have to point at controllers. The value
  that \<open>multiplierCtrl\<close> has when it is read is the one it had before the call, \<open>m\<close>,
  unless \<open>multiplierCtrl\<close> is the traversal itself, whose value has just become \<open>v\<close>;
  either way it is the value that \<open>multiplierCtrl\<close> has after the call. Nothing else
  changes.
\<close>

theorem Traversal_storeValue_reads_controllers:
  assumes live: "this < length (traversals s)"
    and pc: "ctrl_getValue s (progressCtrl (traversals s ! this)) = Inr v"
    and mc: "ctrl_getValue s (multiplierCtrl (traversals s ! this)) = Inr m"
  shows "\<exists>s'. Traversal_storeValue this vals posVals clampedVals invs s = Inr s' \<and>
              value (traversals s' ! this) = v \<and>
              multiplier (traversals s' ! this) =
                Val (if multiplierCtrl (traversals s ! this) = TraversalPtr this then v else m) \<and>
              ctrl_getValue s' (multiplierCtrl (traversals s ! this)) =
                Inr (if multiplierCtrl (traversals s ! this) = TraversalPtr this then v else m) \<and>
              s' = s\<lparr>traversals := (traversals s)[this := (traversals s ! this)
                     \<lparr>value := v,
                      multiplier := Val (if multiplierCtrl (traversals s ! this) = TraversalPtr this
                                         then v else m)\<rparr>]\<rparr>"
proof (cases "multiplierCtrl (traversals s ! this) = TraversalPtr this")
  case True
  then show ?thesis
    using live pc
    by (simp add: Traversal_storeValue_def ctrl_getValue_traversals_update_self)
next
  case False
  then show ?thesis
    using live pc mc
    by (simp add: Traversal_storeValue_def ctrl_getValue_traversals_update_other)
qed

text \<open>
  The traversal of the small rig, once slider \<open>a\<close> holds 0.5 and slider \<open>b\<close> holds 1: its
  value becomes 0.5 and its multiplier 1.
\<close>

theorem Traversal_storeValue_reads_controllers_witness:
  "\<exists>s'. Traversal_storeValue 0 [1 / 2, 1] [1 / 2, 1] [0, 0] [False, False]
           (scenario_rig\<lparr>sliders := [(clearValue (new_Slider ''a'' 0 0))\<lparr>value := 1 / 2\<rparr>,
                                     (clearValue (new_Slider ''b'' 1 1))\<lparr>value := 1\<rparr>]\<rparr>) = Inr s' \<and>
        value (traversals s' ! 0) = 1 / 2 \<and> multiplier (traversals s' ! 0) = Val 1"
proof -
  let ?s = "scenario_rig\<lparr>sliders := [(clearValue (new_Slider ''a'' 0 0))\<lparr>value := 1 / 2\<rparr>,
                                     (clearValue (new_Slider ''b'' 1 1))\<lparr>value := 1\<rparr>]\<rparr>"
  have live: "0 < length (traversals ?s)"
    by (simp add: scenario_rig_sel)
  have pc: "ctrl_getValue ?s (progressCtrl (traversals ?s ! 0)) = Inr (1 / 2)"
    by (simp add: scenario_rig_sel clearValue_def new_Traversal_sel ctrl_getValue_def getValue_def)
  have mc: "ctrl_getValue ?s (multiplierCtrl (traversals ?s ! 0)) = Inr 1"
    by (simp add: scenario_rig_sel clearValue_def new_Traversal_sel ctrl_getValue_def getValue_def)
  show ?thesis
    using Traversal_storeValue_reads_controllers
      [OF live pc mc, of "[1 / 2, 1]" "[1 / 2, 1]" "[0, 0]" "[False, False]"]
    by (simp add: scenario_rig_sel clearValue_def new_Traversal_sel)
qed

subsection \<open>Solving on an unbuilt rig\<close>

text \<open>
  Claim C8. \<open>solve\<close> on a Simplex whose build failed (\<open>built = false\<close>) returns a zero
  vector: one zero per shape, for every input vector, and the Simplex is left as it
  was.
\<close>

theorem solve_unbuilt_zero:
  assumes "\<not> built s"
  shows "\<exists>out. solve getOutput spaceStoreValue s vec = Inr (out, s) \<and>
               length out = length (shapes s) \<and> (\<forall>i < length out. out ! i = 0)"
  using assms by (simp add: solve_def)

text \<open>The small rig with \<open>built\<close> reset, which has four shapes.\<close>

theorem solve_unbuilt_zero_witness:
  "\<not> built (scenario_rig\<lparr>built := False\<rparr>) \<and>
   solve (\<lambda>p t m. []) (\<lambda>sp vs ps cs is s. Inr s) (scenario_rig\<lparr>built := False\<rparr>) [1 / 2, 1]
     = Inr ([0, 0, 0, 0], scenario_rig\<lparr>built := False\<rparr>)"
proof -
  have h: "\<not> built (scenario_rig\<lparr>built := False\<rparr>)" by simp
  obtain out where
    o: "solve (\<lambda>p t m. []) (\<lambda>sp vs ps cs is s. Inr s) (scenario_rig\<lparr>built := False\<rparr>) [1 / 2, 1]
          = Inr (out, scenario_rig\<lparr>built := False\<rparr>)"
    and len: "length out = length (shapes (scenario_rig\<lparr>built := False\<rparr>))"
    and zero: "\<forall>i < length out. out ! i = 0"
    using solve_unbuilt_zero [OF h, of "\<lambda>p t m. []" "\<lambda>sp vs ps cs is s. Inr s" "[1 / 2, 1]"]
    by blast
  have "length out = 4"
    using len by (simp add: scenario_rig_sel)
  then have "out = [0, 0, 0, 0]"
    using zero by (intro nth_equalityI) (simp_all add: nth_Cons')
  then show ?thesis
    using h o by simp
qed

text \<open>
  On the built rig the stages run as the specification lists them. With a progression
  output that gives every knot's shape the weight \<open>t \<cdot> mul\<close>, the input \<open>(0.8, 0.6)\<close>
  drives the two slider shapes to 0.8 and 0.6, the combo shape to 0.6 and the
  traversal shape to 0.48.
\<close>

lemma solve_scenario_rig:
  "solve (\<lambda>p t m. map (\<lambda>(sh, k). (sh, t * m)) (pairs p)) (\<lambda>sp vs ps cs is s. Inr s)
     scenario_rig [4 / 5, 3 / 5] =
   Inr ([4 / 5, 3 / 5, 3 / 5, 12 / 25],
        scenario_rig
          \<lparr>sliders := [(clearValue (new_Slider ''a'' 0 0))\<lparr>value := 4 / 5\<rparr>,
                       (clearValue (new_Slider ''b'' 1 1))\<lparr>value := 3 / 5\<rparr>],
           combos := [(setExact True (clearValue (new_Combo ''ab'' 2 0 [(0, 1), (1, 1)])))
                        \<lparr>value := 3 / 5\<rparr>],
           traversals := [(clearValue (new_Traversal ''t'' 3 0 (SliderPtr 0) (SliderPtr 1)))
                            \<lparr>value := 4 / 5, multiplier := Val (3 / 5)\<rparr>]\<rparr>)"
  by (simp add: solve_def scenario_rig_def clearValues_def rectify_def clamp_to_MAXVAL_def
      MAXVAL_def EPS_def Slider_storeValue_def Combo_storeValue_def combo_state_weight_def
      Traversal_storeValue_def ctrl_getValue_def getValue_def ShapeController_solve_def
      clearValue_def setExact_def new_Slider_def new_Combo_def new_Traversal_def
      new_ShapeController_def new_ShapeBase_def new_Shape_def new_Progression_def
      new_ShapeBase_named_def ShapeBase.defs ShapeController.defs Combo.defs Traversal.defs
      Progression.defs Let_def upt_rec)

subsection \<open>Clearing\<close>

text \<open>
  Claim C9. \<open>clearValues\<close> is idempotent: for every Simplex, calling it twice in
  succession leaves the same state as calling it once.
\<close>

theorem clearValues_idempotent: "clearValues (clearValues s) = clearValues s"
  by (simp add: clearValues_def clearValue_idem comp_def)

subsection \<open>The exact flag of a combo\<close>

lemma combo_do_exact:
  "exact (combo_do (CallSetUserData d) c) = exact c"
  "exact (combo_do (CallSetEnabled b) c) = exact c"
  "exact (combo_do CallClearValue c) = exact c"
  "exact (combo_do (CallSetExact e) c) = Val e"
  by (simp_all add: setUserData_def setEnabled_def clearValue_def setExact_def)

lemma combo_run_exact_set:
  "exact c \<noteq> Indeterminate \<Longrightarrow> exact (combo_run ks c) \<noteq> Indeterminate"
proof (induction ks arbitrary: c)
  case Nil
  then show ?case by simp
next
  case (Cons k ks)
  then show ?case
    by (cases k) (simp_all add: combo_do_exact del: combo_do.simps)
qed

lemma combo_run_exact_indeterminate:
  "exact c = Indeterminate \<Longrightarrow>
   (exact (combo_run ks c) = Indeterminate) = (\<not> setExact_called ks)"
proof (induction ks arbitrary: c)
  case Nil
  then show ?case by simp
next
  case (Cons k ks)
  then show ?case
    by (cases k) (simp_all add: combo_do_exact combo_run_exact_set del: combo_do.simps)
qed

text \<open>
  Claim C10. The constructor of a combo assigns nothing to the flag \<open>exact\<close>; the
  resolution mode of a combo is defined only after \<open>setExact\<close> has been called on it.
  After any sequence of the calls that the header defines for a combo, the flag holds
  nothing if and only if \<open>setExact\<close> is not among them, and \<open>setExact e\<close> makes it \<open>e\<close>.
\<close>

theorem Combo_exact_set_only_by_setExact:
  "exact (new_Combo nm pr idx sl) = Indeterminate \<and>
   exact (setExact e c) = Val e \<and>
   (exact (combo_run ks (new_Combo nm pr idx sl)) = Indeterminate) = (\<not> setExact_called ks)"
  by (simp add: new_Combo_sel setExact_def combo_run_exact_indeterminate)

end
